theory Spec2Isabelle
  imports Complex_Main
begin

section \<open>The operating system as seen by \<^verbatim>\<open>ShellCmd\<close>\<close>

text \<open>
  \<^verbatim>\<open>scripts/play_file_server.py\<close> spawns external commands with
  \<^verbatim>\<open>subprocess.Popen\<close>, polls them, and kills them with \<^verbatim>\<open>os.killpg\<close> followed by
  \<^verbatim>\<open>Popen.wait\<close>. The process table is an explicit list, indexed by process id; a
  process group is identified with its leader. A child is alive, or it has ended
  and waits to be reaped (a zombie, which still holds its process group), or it has
  been reaped by \<^verbatim>\<open>poll()\<close> or \<^verbatim>\<open>wait()\<close>. What a child does when it receives SIGTERM
  is the environment's choice and is passed in as a \<open>sig_reply\<close>.
\<close>

datatype pstate = Alive | Zombie int | Reaped int

record proc =
  cmdline :: string
  pstate :: pstate
  out :: string
  err :: string

type_synonym os = "proc list"

datatype sig_reply = Dies int | Ignores

datatype exn = OSError | ValueError | AttributeError

datatype 'a outcome = Returned 'a | Raised exn | Hangs

text \<open>
  \<^verbatim>\<open>Popen.poll()\<close>: \<open>None\<close> while the child runs; the exit code once it has
  ended, and the first such call reaps the child.
\<close>

definition poll :: "os \<Rightarrow> nat \<Rightarrow> int option \<times> os" where
  "poll os p =
     (if p < length os
      then (case pstate (os ! p) of
              Alive \<Rightarrow> (None, os)
            | Zombie rc \<Rightarrow> (Some rc, os[p := (os ! p)\<lparr>pstate := Reaped rc\<rparr>])
            | Reaped rc \<Rightarrow> (Some rc, os))
      else (None, os))"

definition live_children :: "os \<Rightarrow> nat" where
  "live_children os = length (filter (\<lambda>p. pstate p = Alive) os)"

section \<open>\<^verbatim>\<open>class ShellCmd\<close>\<close>

record ShellCmd =
  retcode :: "int option"
  process :: nat

text \<open>\<^verbatim>\<open>__init__\<close>: \<open>retcode = None\<close>, then \<^verbatim>\<open>Popen(cmd, shell=True, ...)\<close>.\<close>

definition ShellCmd_init :: "string \<Rightarrow> os \<Rightarrow> ShellCmd \<times> os" where
  "ShellCmd_init cmd os =
     (\<lparr>retcode = None, process = length os\<rparr>,
      os @ [\<lparr>cmdline = cmd, pstate = Alive, out = [], err = []\<rparr>])"

text \<open>
  \<^verbatim>\<open>get_retcode\<close>: the process is polled only while \<open>retcode\<close> is \<open>None\<close>; the
  answer is cached in the handle.
\<close>

definition get_retcode :: "ShellCmd \<Rightarrow> os \<Rightarrow> int option \<times> ShellCmd \<times> os" where
  "get_retcode h os =
     (if retcode h = None
      then (let (r, os') = poll os (process h) in (r, h\<lparr>retcode := r\<rparr>, os'))
      else (retcode h, h, os))"

definition is_done :: "ShellCmd \<Rightarrow> os \<Rightarrow> bool \<times> ShellCmd \<times> os" where
  "is_done h os = (let (r, h', os') = get_retcode h os in (r \<noteq> None, h', os'))"

definition is_succeeded :: "ShellCmd \<Rightarrow> os \<Rightarrow> bool \<times> ShellCmd \<times> os" where
  "is_succeeded h os = (let (r, h', os') = get_retcode h os in (r = Some 0, h', os'))"

definition get_stdout :: "ShellCmd \<Rightarrow> os \<Rightarrow> string" where
  "get_stdout h os = (if process h < length os then out (os ! process h) else [])"

definition get_stderr :: "ShellCmd \<Rightarrow> os \<Rightarrow> string" where
  "get_stderr h os = (if process h < length os then err (os ! process h) else [])"

text \<open>
  \<^verbatim>\<open>kill\<close>: the first statement stores \<open>-1\<close> in \<open>retcode\<close>, whatever it held.
  Then \<^verbatim>\<open>os.killpg\<close> signals the group: it raises \<open>OSError\<close> when the group is gone,
  that is, once the child has been reaped. \<^verbatim>\<open>wait()\<close> then blocks until the child has
  ended, and reaps it; on a zombie it returns at once.
\<close>

definition kill :: "sig_reply \<Rightarrow> ShellCmd \<Rightarrow> os \<Rightarrow> unit outcome \<times> ShellCmd \<times> os" where
  "kill reply h os =
     (let h' = h\<lparr>retcode := Some (- 1)\<rparr>; p = process h in
      if p < length os
      then (case pstate (os ! p) of
              Alive \<Rightarrow>
                (case reply of
                   Dies rc \<Rightarrow> (Returned (), h', os[p := (os ! p)\<lparr>pstate := Reaped rc\<rparr>])
                 | Ignores \<Rightarrow> (Hangs, h', os))
            | Zombie rc \<Rightarrow> (Returned (), h', os[p := (os ! p)\<lparr>pstate := Reaped rc\<rparr>])
            | Reaped rc \<Rightarrow> (Raised OSError, h', os))
      else (Raised OSError, h', os))"

text \<open>
  \<^verbatim>\<open>__del__\<close>: a handle that is not done is killed first. Python discards an
  exception raised inside \<^verbatim>\<open>__del__\<close>; a blocked \<^verbatim>\<open>wait()\<close> still blocks.
\<close>

definition ShellCmd_del :: "sig_reply \<Rightarrow> ShellCmd \<Rightarrow> os \<Rightarrow> os option" where
  "ShellCmd_del reply h os =
     (let (d, h', os1) = is_done h os in
      if \<not> d
      then (case kill reply h' os1 of
              (Hangs, _, _) \<Rightarrow> None
            | (_, _, os') \<Rightarrow> Some os')
      else Some os1)"

text \<open>
  A caller that polls a handle again and again: every element of \<open>oss\<close> is the
  process table at one call of \<^verbatim>\<open>get_retcode\<close>.
\<close>

fun polls :: "ShellCmd \<Rightarrow> os list \<Rightarrow> ShellCmd" where
  "polls h [] = h"
| "polls h (os # oss) = polls (fst (snd (get_retcode h os))) oss"

section \<open>Python strings\<close>

text \<open>
  The shebang line \<^verbatim>\<open>#!/usr/bin/env python\<close> names no version, and rospy runs under
  Python 2 and under Python 3. The two differ in what \<^verbatim>\<open>strip()\<close> removes and in what
  \<^verbatim>\<open>int()\<close> accepts, so the functions that depend on it take the interpreter as their
  first argument. A \<open>string\<close> is a list of characters with the codes 0 to 255: the
  bytes of a Python 2 \<^verbatim>\<open>str\<close>, or the code points below 256 of a Python 3 \<^verbatim>\<open>str\<close>.
\<close>

datatype interpreter = Python2 | Python3

definition squote :: char where "squote = CHR 0x27"

definition dquote :: char where "dquote = CHR 0x22"

text \<open>\<^verbatim>\<open>s.index(c)\<close>: the first position of \<open>c\<close>; \<open>None\<close> stands for ValueError.\<close>

fun str_index :: "string \<Rightarrow> char \<Rightarrow> nat option" where
  "str_index [] c = None"
| "str_index (x # xs) c = (if x = c then Some 0 else map_option Suc (str_index xs c))"

text \<open>
  \<^verbatim>\<open>s[i:j]\<close>: a negative bound counts from the end, and every bound is cut to
  \<open>0 .. len(s)\<close>; a slice whose start is not before its stop is empty.
\<close>

definition py_slice :: "string \<Rightarrow> int \<Rightarrow> int \<Rightarrow> string" where
  "py_slice s i j =
     (let n = int (length s);
          lo = (if i < 0 then max 0 (i + n) else min i n);
          hi = (if j < 0 then max 0 (j + n) else min j n)
      in drop (nat lo) (take (nat hi) s))"

text \<open>\<^verbatim>\<open>s.replace(c, "")\<close> for a pattern \<open>c\<close> of one character.\<close>

definition str_remove :: "char \<Rightarrow> string \<Rightarrow> string" where
  "str_remove c s = filter (\<lambda>x. x \<noteq> c) s"

text \<open>
  The whitespace of \<^verbatim>\<open>s.strip()\<close>. Python 2: space and the codes 9 to 13.
  Python 3: these, the separators 28 to 31, next line (133) and no-break space (160).
\<close>

definition is_space :: "interpreter \<Rightarrow> char \<Rightarrow> bool" where
  "is_space v c =
     (let n = (of_char c :: nat) in
      n = 32 \<or> (9 \<le> n \<and> n \<le> 13) \<or>
      (v = Python3 \<and> ((28 \<le> n \<and> n \<le> 31) \<or> n = 133 \<or> n = 160)))"

text \<open>
  The whitespace that \<^verbatim>\<open>int()\<close> skips around a number. Python 3 does not skip the
  separators 28 to 31 here.
\<close>

definition int_space :: "interpreter \<Rightarrow> char \<Rightarrow> bool" where
  "int_space v c =
     (let n = (of_char c :: nat) in
      n = 32 \<or> (9 \<le> n \<and> n \<le> 13) \<or> (v = Python3 \<and> (n = 133 \<or> n = 160)))"

definition trim :: "(char \<Rightarrow> bool) \<Rightarrow> string \<Rightarrow> string" where
  "trim ws s = rev (dropWhile ws (rev (dropWhile ws s)))"

definition strip :: "interpreter \<Rightarrow> string \<Rightarrow> string" where
  "strip v s = trim (is_space v) s"

definition is_digit :: "char \<Rightarrow> bool" where
  "is_digit c = (48 \<le> (of_char c :: nat) \<and> (of_char c :: nat) \<le> 57)"

definition digits_val :: "string \<Rightarrow> nat" where
  "digits_val ds = foldl (\<lambda>a c. 10 * a + (of_char c - 48)) 0 ds"

text \<open>
  Python 3 takes decimal digits with single underscores between them:
  \<^verbatim>\<open>1_0\<close> is ten, and \<^verbatim>\<open>_1\<close>, \<^verbatim>\<open>1_\<close> and \<^verbatim>\<open>1__0\<close> are no numbers.
\<close>

fun grouped_digits :: "string \<Rightarrow> bool" where
  "grouped_digits [] = False"
| "grouped_digits [c] = is_digit c"
| "grouped_digits (c # d # r) =
     (is_digit c \<and> (if d = CHR ''_'' then grouped_digits r else grouped_digits (d # r)))"

text \<open>
  The texts that \<^verbatim>\<open>int\<close> accepts in base 10, once the whitespace around them is
  removed. Python 2: an optional sign, optional whitespace, one or more decimal
  digits. Python 3: an optional sign, and decimal digits in groups.
\<close>

definition int_literal :: "interpreter \<Rightarrow> string \<Rightarrow> bool" where
  "int_literal v t =
     (let r = (case t of
                 [] \<Rightarrow> []
               | c # r' \<Rightarrow> if c = CHR ''-'' \<or> c = CHR ''+'' then r' else t)
      in case v of
           Python2 \<Rightarrow> (let ds = dropWhile (int_space Python2) r
                       in ds \<noteq> [] \<and> list_all is_digit ds)
         | Python3 \<Rightarrow> grouped_digits r)"

text \<open>The number that such a text denotes.\<close>

definition int_value :: "string \<Rightarrow> int" where
  "int_value t =
     (let n = int (digits_val (filter is_digit t))
      in case t of
           [] \<Rightarrow> n
         | c # _ \<Rightarrow> if c = CHR ''-'' then - n else n)"

text \<open>\<^verbatim>\<open>int(s)\<close>: the number, or ValueError for any other text.\<close>

definition py_int :: "interpreter \<Rightarrow> string \<Rightarrow> exn + int" where
  "py_int v s =
     (let t = trim (int_space v) s
      in if int_literal v t then Inr (int_value t) else Inl ValueError)"

text \<open>\<^verbatim>\<open>str(n)\<close> for an integer.\<close>

fun str_nat :: "nat \<Rightarrow> string" where
  "str_nat n =
     (if n < 10 then [''0123456789'' ! n]
      else str_nat (n div 10) @ [''0123456789'' ! (n mod 10)])"

definition str_int :: "int \<Rightarrow> string" where
  "str_int i = (if i < 0 then CHR ''-'' # str_nat (nat (- i)) else str_nat (nat i))"

section \<open>Volume: \<^verbatim>\<open>get_current_volume\<close> and \<^verbatim>\<open>volume_cb\<close>\<close>

text \<open>
  \<^verbatim>\<open>get_current_volume\<close> runs the mixer's get command, waits for it, and parses its
  standard output; \<open>output\<close> is the text that \<^verbatim>\<open>cmd.get_stdout()\<close> returned. There
  is no \<^verbatim>\<open>try\<close> in the script: the ValueError of \<^verbatim>\<open>index\<close> and of \<^verbatim>\<open>int\<close>
  leaves the function.
\<close>

definition get_current_volume :: "interpreter \<Rightarrow> string \<Rightarrow> exn + int" where
  "get_current_volume v output =
     (case str_index output CHR ''%'' of
        None \<Rightarrow> Inl ValueError
      | Some pct_idx \<Rightarrow>
          (let pct_text = py_slice output (int pct_idx - 3) (int pct_idx);
               pct_text = str_remove CHR ''['' pct_text;
               pct_text = strip v pct_text
           in py_int v pct_text))"

text \<open>\<^verbatim>\<open>volume_cb\<close>, lines 204 to 209: the percentage that is applied.\<close>

definition to_pct :: "int \<Rightarrow> int" where
  "to_pct d = (if d > 100 then 100 else if d < 0 then 0 else d)"

section \<open>The node: \<^verbatim>\<open>class AudioFilePlayer\<close> with its \<^verbatim>\<open>VolumeListener\<close>\<close>

text \<open>
  The fields of the object come first. After them comes what the node can change
  outside itself: the process table, the \<^verbatim>\<open>rospy.Timer\<close> threads that run (a
  timer runs from its construction until its \<^verbatim>\<open>shutdown()\<close>; dropping the
  reference does not stop it), the action server's preempt flag and the results it
  was given, the feedback and the volume messages published, and rospy's shutdown
  flag. \<open>num_peers\<close> is the counter of the \<^verbatim>\<open>VolumeListener\<close> that the node owns.
\<close>

datatype terminal = SUCCEEDED | ABORTED | PREEMPTED

record AudioFilePlayResult =
  success :: bool
  total_time :: real
  reason :: string

definition new_result :: AudioFilePlayResult where
  "new_result = \<lparr>success = False, total_time = 0, reason = []\<rparr>"

record AudioFilePlayer =
  current_playing_process :: "ShellCmd option"
  volume_set_command :: string
  volume_get_command :: string
  curr_vol :: int
  command :: string
  flags :: string
  volume_timer :: "nat option"
  timer :: "nat option"
  num_peers :: int
  procs :: os
  timers :: "nat list"
  next_timer :: nat
  preempt_request :: bool
  results :: "(terminal \<times> AudioFilePlayResult) list"
  feedback :: "real list"
  published :: "int list"
  is_shutdown :: bool

text \<open>
  \<^verbatim>\<open>__init__\<close>: \<open>cmd\<close> and \<open>flgs\<close> are the values of the parameters
  \<^verbatim>\<open>~/command\<close> and \<^verbatim>\<open>~/flags\<close>, \<open>output\<close> is what the mixer printed for the first
  \<^verbatim>\<open>get_current_volume()\<close>.
\<close>

definition AudioFilePlayer_init :: "interpreter \<Rightarrow> string \<Rightarrow> string \<Rightarrow> string \<Rightarrow> exn + AudioFilePlayer" where
  "AudioFilePlayer_init v cmd flgs output =
     (case get_current_volume v output of
        Inl e \<Rightarrow> Inl e
      | Inr v \<Rightarrow>
          Inr \<lparr>current_playing_process = None,
               volume_set_command = ''amixer -c 0 sset Master playback'',
               volume_get_command = ''amixer -c 0 sget Master playback'',
               curr_vol = v, command = cmd, flags = flgs,
               volume_timer = None, timer = None, num_peers = 0,
               procs = [], timers = [], next_timer = 0, preempt_request = False,
               results = [], feedback = [], published = [], is_shutdown = False\<rparr>)"

text \<open>The node with the default parameters, on a mixer that reports 51 percent.\<close>

definition node0 :: AudioFilePlayer where
  "node0 =
     \<lparr>current_playing_process = None,
      volume_set_command = ''amixer -c 0 sset Master playback'',
      volume_get_command = ''amixer -c 0 sget Master playback'',
      curr_vol = 51, command = ''play'', flags = [],
      volume_timer = None, timer = None, num_peers = 0,
      procs = [], timers = [], next_timer = 0, preempt_request = False,
      results = [], feedback = [], published = [], is_shutdown = False\<rparr>"

subsection \<open>rospy and actionlib calls\<close>

text \<open>
  \<^verbatim>\<open>rospy.Timer(...)\<close> starts a timer thread and returns it; \<^verbatim>\<open>shutdown()\<close> stops
  it. \<^verbatim>\<open>set_succeeded\<close>, \<^verbatim>\<open>set_aborted\<close> and \<^verbatim>\<open>set_preempted\<close> give the goal its
  result; the results are kept in the order in which they were given.
\<close>

definition Timer :: "AudioFilePlayer \<Rightarrow> nat \<times> AudioFilePlayer" where
  "Timer s =
     (next_timer s, s\<lparr>timers := timers s @ [next_timer s], next_timer := Suc (next_timer s)\<rparr>)"

definition Timer_shutdown :: "nat \<Rightarrow> AudioFilePlayer \<Rightarrow> AudioFilePlayer" where
  "Timer_shutdown t s = s\<lparr>timers := removeAll t (timers s)\<rparr>"

definition set_succeeded :: "AudioFilePlayResult \<Rightarrow> AudioFilePlayer \<Rightarrow> AudioFilePlayer" where
  "set_succeeded res s = s\<lparr>results := results s @ [(SUCCEEDED, res)]\<rparr>"

definition set_aborted :: "AudioFilePlayResult \<Rightarrow> AudioFilePlayer \<Rightarrow> AudioFilePlayer" where
  "set_aborted res s = s\<lparr>results := results s @ [(ABORTED, res)]\<rparr>"

definition set_preempted :: "AudioFilePlayResult \<Rightarrow> AudioFilePlayer \<Rightarrow> AudioFilePlayer" where
  "set_preempted res s = s\<lparr>results := results s @ [(PREEMPTED, res)]\<rparr>"

definition publish_feedback :: "real \<Rightarrow> AudioFilePlayer \<Rightarrow> AudioFilePlayer" where
  "publish_feedback elapsed_played_time s = s\<lparr>feedback := feedback s @ [elapsed_played_time]\<rparr>"

subsection \<open>Volume callbacks and the subscriber listener\<close>

text \<open>
  \<^verbatim>\<open>curr_vol_cb\<close>, the callback of every volume timer: the exception of
  \<^verbatim>\<open>get_current_volume\<close> is not caught, so the two assignments after it do not run.
\<close>

definition curr_vol_cb :: "interpreter \<Rightarrow> string \<Rightarrow> AudioFilePlayer \<Rightarrow> unit outcome \<times> AudioFilePlayer" where
  "curr_vol_cb v output s =
     (case get_current_volume v output of
        Inl e \<Rightarrow> (Raised e, s)
      | Inr v \<Rightarrow> (Returned (), s\<lparr>curr_vol := v, published := published s @ [v]\<rparr>))"

text \<open>
  \<^verbatim>\<open>volume_cb\<close>: the command line given to \<^verbatim>\<open>ShellCmd\<close> in line 213. The rest of
  the callback waits for that command and logs its output; no field of the node is
  assigned.
\<close>

definition volume_cb :: "int \<Rightarrow> AudioFilePlayer \<Rightarrow> string" where
  "volume_cb d s = volume_set_command s @ '' '' @ str_int (to_pct d) @ ''%''"

definition enable_volume_service :: "AudioFilePlayer \<Rightarrow> AudioFilePlayer" where
  "enable_volume_service s =
     (case volume_timer s of
        None \<Rightarrow> (let (t, s') = Timer s in s'\<lparr>volume_timer := Some t\<rparr>)
      | Some _ \<Rightarrow> s)"

definition disable_volume_servce :: "AudioFilePlayer \<Rightarrow> AudioFilePlayer" where
  "disable_volume_servce s =
     (case volume_timer s of
        Some t \<Rightarrow> (Timer_shutdown t s)\<lparr>volume_timer := None\<rparr>
      | None \<Rightarrow> s)"

definition peer_subscribe :: "AudioFilePlayer \<Rightarrow> AudioFilePlayer" where
  "peer_subscribe s =
     (let s' = (if num_peers s = 0 then enable_volume_service s else s)
      in s'\<lparr>num_peers := num_peers s' + 1\<rparr>)"

definition peer_unsubscribe :: "int \<Rightarrow> AudioFilePlayer \<Rightarrow> AudioFilePlayer" where
  "peer_unsubscribe n s =
     (let s' = s\<lparr>num_peers := n\<rparr>
      in if n = 0 then disable_volume_servce s' else s')"

subsection \<open>Playing a file\<close>

definition sanitized :: "string \<Rightarrow> string" where
  "sanitized audio_file_path = str_remove dquote (str_remove squote audio_file_path)"

definition full_command :: "AudioFilePlayer \<Rightarrow> string \<Rightarrow> string" where
  "full_command s audio_file_path =
     command s @ '' '' @ flags s @ [CHR '' '', squote] @ sanitized audio_file_path @ [squote]"

text \<open>
  \<^verbatim>\<open>play_audio_file\<close> in two steps. The right-hand side of the assignment in line
  168 is evaluated first: \<open>play_audio_file_spawn\<close> is the state at that instant, the
  new player started and \<open>current_playing_process\<close> not yet rebound. The
  assignment then drops the last reference to the old handle, and CPython runs its
  \<^verbatim>\<open>__del__\<close>. Lines 170 to 174 make a publisher and start one more timer.
\<close>

definition play_audio_file_spawn :: "string \<Rightarrow> AudioFilePlayer \<Rightarrow> ShellCmd \<times> AudioFilePlayer" where
  "play_audio_file_spawn audio_file_path s =
     (let (h, os') = ShellCmd_init (full_command s audio_file_path) (procs s)
      in (h, s\<lparr>procs := os'\<rparr>))"

definition play_audio_file :: "sig_reply \<Rightarrow> string \<Rightarrow> AudioFilePlayer \<Rightarrow> unit outcome \<times> AudioFilePlayer" where
  "play_audio_file reply audio_file_path s =
     (let (h, s1) = play_audio_file_spawn audio_file_path s;
          s2 = s1\<lparr>current_playing_process := Some h\<rparr>
      in case (case current_playing_process s of
                 None \<Rightarrow> Some (procs s2)
               | Some old \<Rightarrow> ShellCmd_del reply old (procs s2)) of
           None \<Rightarrow> (Hangs, s2)
         | Some os' \<Rightarrow>
             (let (t, s3) = Timer (s2\<lparr>procs := os'\<rparr>)
              in (Returned (), s3\<lparr>timer := Some t\<rparr>)))"

definition topic_cb :: "sig_reply \<Rightarrow> string \<Rightarrow> AudioFilePlayer \<Rightarrow> unit outcome \<times> AudioFilePlayer" where
  "topic_cb reply data s =
     (case current_playing_process s of
        None \<Rightarrow> play_audio_file reply data s
      | Some h \<Rightarrow>
          (let (d, h1, os1) = is_done h (procs s);
               s1 = s\<lparr>current_playing_process := Some h1, procs := os1\<rparr>
           in if \<not> d
              then (case kill reply h1 os1 of
                      (Returned _, h2, os') \<Rightarrow>
                        play_audio_file reply data
                          (s1\<lparr>current_playing_process := Some h2, procs := os'\<rparr>)
                    | (r, h2, os') \<Rightarrow> (r, s1\<lparr>current_playing_process := Some h2, procs := os'\<rparr>))
              else play_audio_file reply data s1))"

subsection \<open>The action server callbacks\<close>

definition as_preempt_cb :: "sig_reply \<Rightarrow> AudioFilePlayer \<Rightarrow> unit outcome \<times> AudioFilePlayer" where
  "as_preempt_cb reply s =
     (case current_playing_process s of
        None \<Rightarrow> (Returned (), s)
      | Some h \<Rightarrow>
          (case kill reply h (procs s) of
             (Returned _, h', os') \<Rightarrow>
               (Returned (),
                set_preempted (new_result\<lparr>success := False, reason := ''Got a cancel request.''\<rparr>)
                  (s\<lparr>current_playing_process := Some h', procs := os'\<rparr>))
           | (r, h', os') \<Rightarrow> (r, s\<lparr>current_playing_process := Some h', procs := os'\<rparr>)))"

text \<open>
  A cancel request for the goal that runs: actionlib's \<^verbatim>\<open>SimpleActionServer\<close>
  raises its preempt flag, which \<^verbatim>\<open>is_preempt_requested()\<close> reads, and then calls the
  preempt callback registered in line 102.
\<close>

definition cancel :: "sig_reply \<Rightarrow> AudioFilePlayer \<Rightarrow> unit outcome \<times> AudioFilePlayer" where
  "cancel reply s = as_preempt_cb reply (s\<lparr>preempt_request := True\<rparr>)"

text \<open>
  What other threads and the environment do while \<^verbatim>\<open>as_cb\<close> sleeps between two
  feedback messages. A callback that raises or blocks does so in its own thread; the
  state it leaves behind is what \<^verbatim>\<open>as_cb\<close> sees.
\<close>

datatype event =
    Exit nat int string string
  | Cancel sig_reply
  | Topic sig_reply string
  | Shutdown

definition proc_exit_with :: "nat \<Rightarrow> int \<Rightarrow> string \<Rightarrow> string \<Rightarrow> os \<Rightarrow> os" where
  "proc_exit_with p rc so se os =
     (if p < length os \<and> pstate (os ! p) = Alive
      then os[p := (os ! p)\<lparr>pstate := Zombie rc, out := so, err := se\<rparr>]
      else os)"

fun deliver :: "event \<Rightarrow> AudioFilePlayer \<Rightarrow> AudioFilePlayer" where
  "deliver (Exit p rc so se) s = s\<lparr>procs := proc_exit_with p rc so se (procs s)\<rparr>"
| "deliver (Cancel reply) s = snd (cancel reply s)"
| "deliver (Topic reply data) s = snd (topic_cb reply data s)"
| "deliver Shutdown s = s\<lparr>is_shutdown := True\<rparr>"

text \<open>
  The condition of the loop in line 132. \<^verbatim>\<open>and\<close> does not evaluate
  \<^verbatim>\<open>is_done()\<close> once rospy is shut down.
\<close>

definition as_cb_continue :: "AudioFilePlayer \<Rightarrow> bool outcome \<times> AudioFilePlayer" where
  "as_cb_continue s =
     (if is_shutdown s then (Returned False, s)
      else (case current_playing_process s of
              None \<Rightarrow> (Raised AttributeError, s)
            | Some h \<Rightarrow>
                (let (d, h', os') = is_done h (procs s)
                 in (Returned (\<not> d), s\<lparr>current_playing_process := Some h', procs := os'\<rparr>))))"

text \<open>
  The feedback loop. Each element of the schedule is one iteration: the clock read
  in line 134 and the events that arrive during \<^verbatim>\<open>r.sleep()\<close>. A loop that is still
  running when the schedule ends has not returned.
\<close>

fun as_cb_loop :: "real \<Rightarrow> (real \<times> event list) list \<Rightarrow> AudioFilePlayer \<Rightarrow> unit outcome \<times> AudioFilePlayer" where
  "as_cb_loop initial_time [] s =
     (case as_cb_continue s of
        (Returned True, s1) \<Rightarrow> (Hangs, s1)
      | (Returned False, s1) \<Rightarrow> (Returned (), s1)
      | (Raised e, s1) \<Rightarrow> (Raised e, s1)
      | (Hangs, s1) \<Rightarrow> (Hangs, s1))"
| "as_cb_loop initial_time ((curr_time, evs) # rest) s =
     (case as_cb_continue s of
        (Returned True, s1) \<Rightarrow>
          as_cb_loop initial_time rest
            (fold deliver evs (publish_feedback (curr_time - initial_time) s1))
      | (Returned False, s1) \<Rightarrow> (Returned (), s1)
      | (Raised e, s1) \<Rightarrow> (Raised e, s1)
      | (Hangs, s1) \<Rightarrow> (Hangs, s1))"

text \<open>Lines 140 to 153: the result of the goal.\<close>

definition as_cb_finish :: "real \<Rightarrow> AudioFilePlayer \<Rightarrow> unit outcome \<times> AudioFilePlayer" where
  "as_cb_finish final_time s =
     (case current_playing_process s of
        None \<Rightarrow> (Raised AttributeError, s)
      | Some h \<Rightarrow>
          (let (ok, h', os') = is_succeeded h (procs s);
               s1 = s\<lparr>current_playing_process := Some h', procs := os'\<rparr>
           in if ok
              then (Returned (),
                    set_succeeded (new_result\<lparr>success := True, total_time := final_time\<rparr>) s1)
              else if preempt_request s1 then (Returned (), s1)
              else (Returned (),
                    set_aborted
                      (new_result\<lparr>success := False,
                         reason := ''stderr: '' @ get_stderr h' (procs s1) @
                                   [CHR 0x0A] @ ''stdout: '' @ get_stdout h' (procs s1)\<rparr>)
                      s1)))"

text \<open>
  \<^verbatim>\<open>as_cb\<close>: \<open>initial_time\<close> and \<open>final_time\<close> are the values of
  \<^verbatim>\<open>time.time()\<close> in lines 129 and 140.
\<close>

definition as_cb :: "sig_reply \<Rightarrow> string \<Rightarrow> real \<Rightarrow> (real \<times> event list) list \<Rightarrow> real \<Rightarrow> AudioFilePlayer \<Rightarrow> unit outcome \<times> AudioFilePlayer" where
  "as_cb reply filepath initial_time ticks final_time s =
     (case play_audio_file reply filepath s of
        (Returned _, s1) \<Rightarrow>
          (case as_cb_loop initial_time ticks s1 of
             (Returned _, s2) \<Rightarrow> as_cb_finish final_time s2
           | r \<Rightarrow> r)
      | r \<Rightarrow> r)"

subsection \<open>States\<close>





section \<open>Process handles: polling and killing\<close>

lemma get_retcode_cached:
  "retcode h = Some rc \<Longrightarrow> get_retcode h os = (Some rc, h, os)"
  by (simp add: get_retcode_def)

lemma polls_cached: "retcode h = Some rc \<Longrightarrow> polls h oss = h"
  by (induction oss) (simp_all add: get_retcode_cached)

lemma kill_handle: "fst (snd (kill reply h os)) = h\<lparr>retcode := Some (- 1)\<rparr>"
  by (simp add: kill_def Let_def split: sig_reply.splits pstate.splits)

text \<open>
  Claim C10. After \<^verbatim>\<open>kill()\<close> the handle holds return code \<open>-1\<close>, whatever the
  process did and however the call ended (returned, raised, or blocked in
  \<^verbatim>\<open>wait()\<close>): \<^verbatim>\<open>is_done()\<close> is true and \<^verbatim>\<open>is_succeeded()\<close> is false, at once and after
  any number of later polls against any process table.
\<close>

theorem kill_marks_failure:
  "retcode (fst (snd (kill reply h os))) = Some (- 1)
   \<and> fst (is_done (polls (fst (snd (kill reply h os))) oss) os')
   \<and> \<not> fst (is_succeeded (polls (fst (snd (kill reply h os))) oss) os')
   \<and> fst (get_retcode (polls (fst (snd (kill reply h os))) oss) os') = Some (- 1)"
proof -
  let ?k = "fst (snd (kill reply h os))"
  have r: "retcode ?k = Some (- 1)" by (simp add: kill_handle)
  then have p: "polls ?k oss = ?k" by (rule polls_cached)
  from r have g: "get_retcode ?k os' = (Some (- 1), ?k, os')" by (rule get_retcode_cached)
  show ?thesis
    unfolding p using r g by (simp add: is_done_def is_succeeded_def)
qed

theorem kill_marks_failure_witness:
  "fst (is_done (polls (fst (snd (kill (Dies 0) \<lparr>retcode = None, process = 0\<rparr>
        [\<lparr>cmdline = ''play'', pstate = Zombie 0, out = [], err = []\<rparr>]))) [[], []]) [])
   \<and> \<not> fst (is_succeeded (polls (fst (snd (kill (Dies 0) \<lparr>retcode = None, process = 0\<rparr>
        [\<lparr>cmdline = ''play'', pstate = Zombie 0, out = [], err = []\<rparr>]))) [[], []]) [])
   \<and> fst (kill (Dies 0) \<lparr>retcode = None, process = 0\<rparr>
        [\<lparr>cmdline = ''play'', pstate = Zombie 0, out = [], err = []\<rparr>]) = Returned ()"
  using kill_marks_failure [of "Dies 0" "\<lparr>retcode = None, process = 0\<rparr>"
      "[\<lparr>cmdline = ''play'', pstate = Zombie 0, out = [], err = []\<rparr>]" "[[], []]" "[]"]
  by (simp add: kill_def)

text \<open>
  Claim C3, as stated, fails: a handle that was observed as succeeded (return code 0
  cached) is no longer succeeded after \<^verbatim>\<open>kill()\<close>, so \<^verbatim>\<open>kill()\<close> on a completed handle
  is not a no-op.
\<close>

theorem kill_overwrites_success:
  "fst (is_succeeded \<lparr>retcode = Some 0, process = 0\<rparr>
         [\<lparr>cmdline = ''play'', pstate = Reaped 0, out = [], err = []\<rparr>])
   \<and> \<not> fst (is_succeeded
         (fst (snd (kill (Dies 0) \<lparr>retcode = Some 0, process = 0\<rparr>
            [\<lparr>cmdline = ''play'', pstate = Reaped 0, out = [], err = []\<rparr>])))
         [\<lparr>cmdline = ''play'', pstate = Reaped 0, out = [], err = []\<rparr>])
   \<and> fst (snd (kill (Dies 0) \<lparr>retcode = Some 0, process = 0\<rparr>
            [\<lparr>cmdline = ''play'', pstate = Reaped 0, out = [], err = []\<rparr>]))
       \<noteq> \<lparr>retcode = Some 0, process = 0\<rparr>"
  by (simp add: kill_def is_succeeded_def get_retcode_def)

text \<open>
  Claim C3, amended. Polling never changes a return code once it is set:
  \<^verbatim>\<open>get_retcode\<close> returns the cached code and leaves the handle and the process
  table as they are, however often it is called. \<^verbatim>\<open>kill()\<close> stores \<open>-1\<close> in the
  handle whatever it held before, and a second \<^verbatim>\<open>kill()\<close> leaves the handle as the
  first one left it.
\<close>

theorem retcode_sticky_kill_overwrites:
  "(retcode h = Some rc \<longrightarrow> get_retcode h os = (Some rc, h, os) \<and> polls h oss = h)
   \<and> fst (snd (kill reply h os)) = h\<lparr>retcode := Some (- 1)\<rparr>
   \<and> fst (snd (kill reply' (fst (snd (kill reply h os))) os')) = fst (snd (kill reply h os))"
  by (simp add: get_retcode_cached polls_cached kill_handle)

theorem retcode_sticky_kill_overwrites_witness:
  "get_retcode \<lparr>retcode = Some 0, process = 0\<rparr> [] = (Some 0, \<lparr>retcode = Some 0, process = 0\<rparr>, [])
   \<and> polls \<lparr>retcode = Some 0, process = 0\<rparr> [[], []] = \<lparr>retcode = Some 0, process = 0\<rparr>
   \<and> fst (snd (kill (Dies 3) \<lparr>retcode = Some 0, process = 0\<rparr> [])) = \<lparr>retcode = Some (- 1), process = 0\<rparr>"
  using retcode_sticky_kill_overwrites [of "\<lparr>retcode = Some 0, process = 0\<rparr>" 0 "[]" "[[], []]" "Dies 3" "Dies 3" "[]"]
  by simp

section \<open>Parsing the mixer output\<close>

lemma dropWhile_idem: "dropWhile P (dropWhile P xs) = dropWhile P xs"
  by (induction xs) auto

lemma dropWhile_prefix_fixed:
  assumes "dropWhile P d = d" and "d = p @ t"
  shows "dropWhile P p = p"
proof (cases p)
  case Nil
  then show ?thesis by simp
next
  case (Cons x xs)
  with assms have "dropWhile P (x # (xs @ t)) = x # (xs @ t)" by simp
  then have "\<not> P x" by (metis hd_dropWhile list.sel(1) list.discI)
  with Cons show ?thesis by simp
qed

lemma dropWhile_weaker:
  assumes "dropWhile P xs = xs" and "\<And>c. Q c \<Longrightarrow> P c"
  shows "dropWhile Q xs = xs"
proof (cases xs)
  case Nil
  then show ?thesis by simp
next
  case (Cons x r)
  with assms(1) have "\<not> P x" by (metis hd_dropWhile list.sel(1) list.discI)
  with assms(2) have "\<not> Q x" by blast
  with Cons show ?thesis by simp
qed

lemma trim_head_fixed: "dropWhile ws (trim ws s) = trim ws s"
proof -
  let ?d = "dropWhile ws s"
  let ?e = "dropWhile ws (rev ?d)"
  have "?d = rev ?e @ rev (takeWhile ws (rev ?d))"
    by (metis rev_append rev_rev_ident takeWhile_dropWhile_id)
  moreover have "dropWhile ws ?d = ?d" by (rule dropWhile_idem)
  ultimately have "dropWhile ws (rev ?e) = rev ?e"
    by (rule dropWhile_prefix_fixed [rotated])
  then show ?thesis by (simp add: trim_def)
qed

lemma trim_last_fixed: "dropWhile ws (rev (trim ws s)) = rev (trim ws s)"
  by (simp add: trim_def dropWhile_idem)

lemma trim_weaker:
  assumes "\<And>c. Q c \<Longrightarrow> P c"
  shows "trim Q (trim P s) = trim P s"
proof -
  have a: "dropWhile Q (trim P s) = trim P s"
    by (rule dropWhile_weaker [OF trim_head_fixed assms])
  have b: "dropWhile Q (rev (trim P s)) = rev (trim P s)"
    by (rule dropWhile_weaker [OF trim_last_fixed assms])
  show ?thesis unfolding trim_def [of Q] a b by simp
qed

lemma int_space_is_space: "int_space v c \<Longrightarrow> is_space v c"
  by (auto simp: int_space_def is_space_def Let_def)

lemma py_int_strip:
  "py_int v (strip v x) =
     (if int_literal v (strip v x) then Inr (int_value (strip v x)) else Inl ValueError)"
proof -
  have "trim (int_space v) (strip v x) = strip v x"
    unfolding strip_def by (rule trim_weaker [OF int_space_is_space])
  then show ?thesis by (simp add: py_int_def)
qed

lemma str_index_None: "str_index xs c = None \<longleftrightarrow> c \<notin> set xs"
  by (induction xs) auto

lemma str_index_first: "c \<notin> set xs \<Longrightarrow> str_index (xs @ c # ys) c = Some (length xs)"
  by (induction xs) auto

text \<open>
  Claim C4, as stated, fails: on a mixer output whose text before \<open>%\<close> is not a
  number, the timer callback \<^verbatim>\<open>curr_vol_cb\<close> does not recover; the ValueError of
  \<^verbatim>\<open>get_current_volume\<close> leaves the callback, under either interpreter.
\<close>

theorem malformed_volume_not_recovered:
  "fst (curr_vol_cb Python2 ''Mono: Playback 44 [n/a%] [on]'' node0) = Raised ValueError
   \<and> fst (curr_vol_cb Python3 ''Mono: Playback 44 [n/a%] [on]'' node0) = Raised ValueError
   \<and> get_current_volume Python2 ''Mono: Playback 44 [n/a%] [on]'' = Inl ValueError
   \<and> get_current_volume Python3 ''Mono: Playback 44 [n/a%] [on]'' = Inl ValueError"
  by (simp add: curr_vol_cb_def get_current_volume_def py_slice_def str_remove_def strip_def
      trim_def is_space_def int_space_def py_int_def int_literal_def is_digit_def)

text \<open>
  Claim C4, amended. Under either interpreter: when the mixer output holds no
  \<open>%\<close>, or when the (at most) three characters that the slice takes before the first
  \<open>%\<close>, with \<open>[\<close> removed and whitespace stripped, are not a number that the
  interpreter's \<^verbatim>\<open>int\<close> accepts, then \<^verbatim>\<open>get_current_volume\<close> raises ValueError, and
  \<^verbatim>\<open>curr_vol_cb\<close> raises it too: the node is left as it was, nothing is stored and
  nothing is published.
\<close>

theorem malformed_volume_raises:
  assumes "CHR ''%'' \<notin> set output \<or>
           (\<exists>i. str_index output CHR ''%'' = Some i \<and>
                \<not> int_literal v (strip v (str_remove CHR ''['' (py_slice output (int i - 3) (int i)))))"
  shows "get_current_volume v output = Inl ValueError
     \<and> curr_vol_cb v output s = (Raised ValueError, s)"
proof -
  have "get_current_volume v output = Inl ValueError"
    using assms
  proof
    assume "CHR ''%'' \<notin> set output"
    then have "str_index output CHR ''%'' = None" by (simp add: str_index_None)
    then show ?thesis by (simp add: get_current_volume_def)
  next
    assume "\<exists>i. str_index output CHR ''%'' = Some i \<and>
                \<not> int_literal v (strip v (str_remove CHR ''['' (py_slice output (int i - 3) (int i))))"
    then obtain i where i: "str_index output CHR ''%'' = Some i"
      and n: "\<not> int_literal v (strip v (str_remove CHR ''['' (py_slice output (int i - 3) (int i))))"
      by blast
    from n have "py_int v (strip v (str_remove CHR ''['' (py_slice output (int i - 3) (int i)))) = Inl ValueError"
      by (simp add: py_int_strip)
    with i show ?thesis by (simp add: get_current_volume_def)
  qed
  then show ?thesis by (simp add: curr_vol_cb_def)
qed

theorem malformed_volume_raises_witness:
  "CHR ''%'' \<notin> set ''Mono: Playback 44 [on]''
   \<and> get_current_volume Python2 ''Mono: Playback 44 [on]'' = Inl ValueError
   \<and> curr_vol_cb Python3 ''Mono: Playback 44 [on]'' node0 = (Raised ValueError, node0)
   \<and> str_index ''[n/a%]'' CHR ''%'' = Some 4
   \<and> \<not> int_literal Python3 (strip Python3 (str_remove CHR ''['' (py_slice ''[n/a%]'' (int 4 - 3) (int 4))))
   \<and> curr_vol_cb Python3 ''[n/a%]'' node0 = (Raised ValueError, node0)
   \<and> \<not> int_literal Python2 (strip Python2 (str_remove CHR ''['' (py_slice ''[1_0%]'' (int 4 - 3) (int 4))))
   \<and> curr_vol_cb Python2 ''[1_0%]'' node0 = (Raised ValueError, node0)"
proof -
  have h: "CHR ''%'' \<notin> set ''Mono: Playback 44 [on]''" by simp
  have i: "str_index ''[n/a%]'' CHR ''%'' = Some 4" by simp
  have n: "\<not> int_literal Python3 (strip Python3 (str_remove CHR ''['' (py_slice ''[n/a%]'' (int 4 - 3) (int 4))))"
    by (simp add: int_literal_def strip_def trim_def str_remove_def py_slice_def is_space_def is_digit_def)
  from i n have e: "\<exists>i. str_index ''[n/a%]'' CHR ''%'' = Some i \<and>
      \<not> int_literal Python3 (strip Python3 (str_remove CHR ''['' (py_slice ''[n/a%]'' (int i - 3) (int i))))"
    by blast
  have i2: "str_index ''[1_0%]'' CHR ''%'' = Some 4" by simp
  have n2: "\<not> int_literal Python2 (strip Python2 (str_remove CHR ''['' (py_slice ''[1_0%]'' (int 4 - 3) (int 4))))"
    by (simp add: int_literal_def strip_def trim_def str_remove_def py_slice_def is_space_def
        int_space_def is_digit_def)
  from i2 n2 have e2: "\<exists>i. str_index ''[1_0%]'' CHR ''%'' = Some i \<and>
      \<not> int_literal Python2 (strip Python2 (str_remove CHR ''['' (py_slice ''[1_0%]'' (int i - 3) (int i))))"
    by blast
  show ?thesis
    using h i n n2 malformed_volume_raises [OF disjI1 [OF h], of Python2 node0]
      malformed_volume_raises [OF disjI1 [OF h], of Python3 node0]
      malformed_volume_raises [OF disjI2 [OF e], of node0]
      malformed_volume_raises [OF disjI2 [OF e2], of node0]
    by simp
qed

lemma is_digit_not_special:
  "is_digit c \<Longrightarrow> c \<noteq> CHR ''%'' \<and> c \<noteq> CHR ''['' \<and> c \<noteq> CHR ''-'' \<and> c \<noteq> CHR ''+''
     \<and> c \<noteq> CHR ''_'' \<and> \<not> is_space v c \<and> \<not> int_space v c"
  by (auto simp: is_digit_def is_space_def int_space_def Let_def)

lemma py_slice_token:
  "length tok = 3 \<Longrightarrow>
   py_slice (pre @ tok @ c # rest) (int (length pre + 3) - 3) (int (length pre + 3)) = tok"
  by (simp add: py_slice_def Let_def)

lemma trim_digits:
  assumes "\<forall>c\<in>set sp. ws c" and "ds \<noteq> []" and "\<forall>c\<in>set ds. \<not> ws c"
  shows "trim ws (sp @ ds) = ds"
proof -
  from assms(2) obtain d ds' where ds: "ds = d # ds'" by (cases ds) auto
  from assms(2) obtain ds'' e where dse: "ds = ds'' @ [e]" by (cases ds rule: rev_cases) auto
  have "\<not> ws d" using assms(3) ds by simp
  have "\<not> ws e" using assms(3) dse by simp
  have "dropWhile ws (sp @ ds) = ds"
    using assms(1) \<open>\<not> ws d\<close> ds by (simp add: dropWhile_append2)
  moreover have "dropWhile ws (rev ds) = rev ds"
    using \<open>\<not> ws e\<close> dse by simp
  ultimately show ?thesis by (simp add: trim_def)
qed

lemma grouped_all_digits: "ds \<noteq> [] \<Longrightarrow> list_all is_digit ds \<Longrightarrow> grouped_digits ds"
proof (induction ds rule: grouped_digits.induct)
  case 1
  then show ?case by simp
next
  case (2 c)
  then show ?case by simp
next
  case (3 c d r)
  then have "is_digit d" by simp
  then have "d \<noteq> CHR ''_''" using is_digit_not_special by blast
  with 3 show ?case by simp
qed

lemma py_int_digits:
  assumes "ds \<noteq> []" and "list_all is_digit ds"
  shows "py_int v ds = Inr (int (digits_val ds))"
proof -
  have dig: "\<forall>c\<in>set ds. is_digit c" using assms(2) by (simp add: list_all_iff)
  then have nws: "\<forall>c\<in>set ds. \<not> int_space v c" using is_digit_not_special by blast
  have t: "trim (int_space v) ds = ds" using trim_digits [of "[]" "int_space v" ds] assms(1) nws by simp
  from assms(1) obtain d ds' where ds: "ds = d # ds'" by (cases ds) auto
  then have "is_digit d" using assms(2) by simp
  then have d: "d \<noteq> CHR ''-''" "d \<noteq> CHR ''+''" "\<not> int_space Python2 d"
    using is_digit_not_special by blast+
  have f: "filter is_digit ds = ds" using dig by (auto simp: filter_id_conv)
  have v: "int_value ds = int (digits_val ds)"
    using d(1) by (simp add: int_value_def f) (simp add: ds)
  have l: "int_literal v ds"
  proof (cases v)
    case Python2
    then show ?thesis using d assms by (simp add: int_literal_def ds)
  next
    case Python3
    then show ?thesis using d grouped_all_digits [OF assms] by (simp add: int_literal_def ds)
  qed
  show ?thesis using t v l by (simp add: py_int_def)
qed

lemma percent_bracket_plain:
  "\<not> is_space v CHR ''%''" "\<not> is_digit CHR ''%''" "\<not> is_digit CHR ''[''"
  by (simp_all add: is_space_def is_digit_def)

text \<open>
  Claim C9, as stated, fails: \<^verbatim>\<open>get_current_volume\<close> looks at the first \<open>%\<close> of the
  output only. Here the first \<open>%\<close> follows no number, a later one follows \<open>51\<close>,
  and the call raises ValueError.
\<close>

theorem first_percent_not_numeric:
  "get_current_volume Python2 ''Playback % [51%]'' = Inl ValueError
   \<and> get_current_volume Python3 ''Playback % [51%]'' = Inl ValueError"
  by (simp add: get_current_volume_def py_slice_def str_remove_def strip_def trim_def
      is_space_def int_space_def py_int_def int_literal_def is_digit_def)

text \<open>
  Claim C9, amended. Under either interpreter: when the first \<open>%\<close> of the output
  has at least three characters before it, and the three characters before it are
  padding of \<open>[\<close> and whitespace followed by one to three decimal digits,
  \<^verbatim>\<open>get_current_volume\<close> returns the number that the digits denote. On
  \<^verbatim>\<open>Mono: Playback 44 [51%] [-32.25dB] [on]\<close> it returns 51.
\<close>

theorem first_percent_parsed:
  assumes "output = pre @ pad @ ds @ CHR ''%'' # rest"
    and "CHR ''%'' \<notin> set pre"
    and "length pad + length ds = 3"
    and "\<forall>c\<in>set pad. c = CHR ''['' \<or> is_space v c"
    and "ds \<noteq> []"
    and "list_all is_digit ds"
  shows "get_current_volume v output = Inr (int (digits_val ds))"
proof -
  have dig: "\<forall>c\<in>set ds. is_digit c" using assms(6) by (simp add: list_all_iff)
  have "CHR ''%'' \<notin> set pad"
  proof
    assume "CHR ''%'' \<in> set pad"
    with assms(4) have "CHR ''%'' = CHR ''['' \<or> is_space v CHR ''%''" by blast
    then show False by (simp add: percent_bracket_plain)
  qed
  moreover have "CHR ''%'' \<notin> set ds" using dig percent_bracket_plain(2) by blast
  ultimately have np: "CHR ''%'' \<notin> set (pre @ pad @ ds)" using assms(2) by simp
  have len: "length (pre @ pad @ ds) = length pre + 3" using assms(3) by simp
  have "output = (pre @ pad @ ds) @ CHR ''%'' # rest" using assms(1) by simp
  then have "str_index output CHR ''%'' = Some (length (pre @ pad @ ds))"
    using str_index_first [OF np] by simp
  then have idx: "str_index output CHR ''%'' = Some (length pre + 3)"
    unfolding len .
  have o2: "output = pre @ (pad @ ds) @ CHR ''%'' # rest" using assms(1) by simp
  have l3: "length (pad @ ds) = 3" using assms(3) by simp
  have sl: "py_slice output (int (length pre + 3) - 3) (int (length pre + 3)) = pad @ ds"
    unfolding o2 by (rule py_slice_token [OF l3])
  have "CHR ''['' \<notin> set ds" using dig percent_bracket_plain(3) by blast
  then have "filter (\<lambda>x. x \<noteq> CHR ''['') ds = ds" by (auto simp: filter_id_conv)
  then have rm: "str_remove CHR ''['' (pad @ ds) = filter (\<lambda>x. x \<noteq> CHR ''['') pad @ ds"
    by (simp add: str_remove_def)
  have sp: "\<forall>c\<in>set (filter (\<lambda>x. x \<noteq> CHR ''['') pad). is_space v c"
    using assms(4) by auto
  have nsp: "\<forall>c\<in>set ds. \<not> is_space v c" using dig is_digit_not_special by blast
  have st: "strip v (filter (\<lambda>x. x \<noteq> CHR ''['') pad @ ds) = ds"
    unfolding strip_def by (rule trim_digits [OF sp assms(5) nsp])
  have "get_current_volume v output =
          py_int v (strip v (str_remove CHR ''[''
            (py_slice output (int (length pre + 3) - 3) (int (length pre + 3)))))"
    unfolding get_current_volume_def idx by (simp only: option.case Let_def)
  also have "\<dots> = py_int v ds" unfolding sl rm st ..
  also have "\<dots> = Inr (int (digits_val ds))" by (rule py_int_digits [OF assms(5,6)])
  finally show ?thesis .
qed

theorem first_percent_parsed_witness:
  "get_current_volume Python2 ''Mono: Playback 44 [51%] [-32.25dB] [on]'' = Inr 51
   \<and> get_current_volume Python3 ''Mono: Playback 44 [51%] [-32.25dB] [on]'' = Inr 51"
  using first_percent_parsed [of "''Mono: Playback 44 [51%] [-32.25dB] [on]''"
      "''Mono: Playback 44 ''" "''[''" "''51''" "''] [-32.25dB] [on]''" Python2]
    first_percent_parsed [of "''Mono: Playback 44 [51%] [-32.25dB] [on]''"
      "''Mono: Playback 44 ''" "''[''" "''51''" "''] [-32.25dB] [on]''" Python3]
  by (simp add: is_digit_def digits_val_def)

section \<open>The command line of the player\<close>

lemma sanitized_filter: "sanitized p = filter (\<lambda>c. c \<noteq> squote \<and> c \<noteq> dquote) p"
  by (simp add: sanitized_def str_remove_def conj_commute)

text \<open>
  Claim C5, as stated, fails: the command line that \<^verbatim>\<open>play_audio_file\<close> gives to the
  shell holds a single quote character, for the path \<^verbatim>\<open>a'b\<close> as for every path.
\<close>

theorem command_line_has_quotes:
  "squote \<in> set (cmdline (last (procs (snd (play_audio_file (Dies 0) [CHR ''a'', squote, CHR ''b''] node0)))))"
  by (simp add: play_audio_file_def play_audio_file_spawn_def ShellCmd_init_def full_command_def
      Timer_def node0_def sanitized_def str_remove_def squote_def dquote_def)

text \<open>
  Claim C5, amended. For every path, the sanitized path is the path without its
  \<open>'\<close> and \<open>"\<close> characters and holds neither of them. The command line of the
  player is the command, a space, the flags, a space, and the sanitized path between
  two single quotes; its quote characters are those of the command, those of the
  flags, and these two.
\<close>

theorem sanitized_path_quoted:
  "squote \<notin> set (sanitized p) \<and> dquote \<notin> set (sanitized p)
   \<and> sanitized p = filter (\<lambda>c. c \<noteq> squote \<and> c \<noteq> dquote) p
   \<and> cmdline (last (procs (snd (play_audio_file_spawn p s))))
       = command s @ '' '' @ flags s @ '' '' @ [squote] @ sanitized p @ [squote]
   \<and> filter (\<lambda>c. c = squote \<or> c = dquote) (cmdline (last (procs (snd (play_audio_file_spawn p s)))))
       = filter (\<lambda>c. c = squote \<or> c = dquote) (command s)
         @ filter (\<lambda>c. c = squote \<or> c = dquote) (flags s) @ [squote, squote]"
proof -
  have a: "squote \<notin> set (sanitized p)" "dquote \<notin> set (sanitized p)"
    by (simp_all add: sanitized_filter)
  have c: "cmdline (last (procs (snd (play_audio_file_spawn p s)))) = full_command s p"
    by (simp add: play_audio_file_spawn_def ShellCmd_init_def)
  have f: "filter (\<lambda>c. c = squote \<or> c = dquote) (sanitized p) = []"
    by (auto simp: sanitized_filter filter_empty_conv)
  have q: "CHR '' '' \<noteq> squote" "CHR '' '' \<noteq> dquote"
    by (simp_all add: squote_def dquote_def)
  show ?thesis
    using a f q by (simp add: c full_command_def sanitized_filter)
qed

theorem sanitized_path_quoted_witness:
  "cmdline (last (procs (snd (play_audio_file_spawn [CHR ''a'', squote, CHR ''b'', dquote] node0))))
     = ''play  '' @ [squote] @ ''ab'' @ [squote]"
  using sanitized_path_quoted [of "[CHR ''a'', squote, CHR ''b'', dquote]" node0]
  by (simp add: node0_def sanitized_def str_remove_def squote_def dquote_def)

section \<open>Setting and reading the volume\<close>

text \<open>
  Claim C7, as stated, fails: a read is not clamped. When the mixer prints 101
  percent, the timer callback stores 101 as the current volume.
\<close>

theorem read_volume_not_clamped:
  "curr_vol (snd (curr_vol_cb Python2 ''Mono: Playback 90 [101%] [3.00dB] [on]'' node0)) = 101
   \<and> curr_vol (snd (curr_vol_cb Python3 ''Mono: Playback 90 [101%] [3.00dB] [on]'' node0)) = 101"
  by code_simp

text \<open>
  Claim C7, amended. For every request \<open>d\<close> to set the volume, the percentage in
  the command line that \<^verbatim>\<open>volume_cb\<close> runs is \<open>d\<close> clamped to 0 .. 100 (150 gives 100,
  -5 gives 0, 42 gives 42). A read is not clamped: \<^verbatim>\<open>curr_vol_cb\<close> stores the
  number that \<^verbatim>\<open>get_current_volume\<close> parsed, as it is.
\<close>

theorem volume_cb_clamps:
  "to_pct d = max 0 (min 100 d) \<and> 0 \<le> to_pct d \<and> to_pct d \<le> 100
   \<and> volume_cb d s = volume_set_command s @ '' '' @ str_int (max 0 (min 100 d)) @ ''%''
   \<and> to_pct 150 = 100 \<and> to_pct (- 5) = 0 \<and> to_pct 42 = 42
   \<and> curr_vol (snd (curr_vol_cb v output s))
       = (case get_current_volume v output of Inr n \<Rightarrow> n | Inl e \<Rightarrow> curr_vol s)"
proof -
  have t: "to_pct d = max 0 (min 100 d)" by (simp add: to_pct_def)
  have c: "curr_vol (snd (curr_vol_cb v output s))
       = (case get_current_volume v output of Inr n \<Rightarrow> n | Inl e \<Rightarrow> curr_vol s)"
    by (simp add: curr_vol_cb_def split: sum.splits)
  have v: "volume_cb d s = volume_set_command s @ '' '' @ str_int (max 0 (min 100 d)) @ ''%''"
    unfolding volume_cb_def t ..
  have r: "0 \<le> to_pct d" "to_pct d \<le> 100" by (simp_all add: to_pct_def)
  have e: "to_pct 150 = 100" "to_pct (- 5) = 0" "to_pct 42 = 42" by (simp_all add: to_pct_def)
  show ?thesis using t c v r e by blast
qed

theorem volume_cb_clamps_witness:
  "volume_cb 150 node0 = ''amixer -c 0 sset Master playback 100%''
   \<and> volume_cb (- 5) node0 = ''amixer -c 0 sset Master playback 0%''
   \<and> volume_cb 42 node0 = ''amixer -c 0 sset Master playback 42%''"
  using volume_cb_clamps [of 150 node0 Python3 "[]"] volume_cb_clamps [of "- 5" node0 Python3 "[]"]
    volume_cb_clamps [of 42 node0 Python3 "[]"]
  by (simp add: node0_def str_int_def)

section \<open>Volume timers\<close>

lemma node0_init:
  "AudioFilePlayer_init Python2 ''play'' [] ''Mono: Playback 44 [51%] [-32.25dB] [on]'' = Inr node0
   \<and> AudioFilePlayer_init Python3 ''play'' [] ''Mono: Playback 44 [51%] [-32.25dB] [on]'' = Inr node0"
  by code_simp

text \<open>
  Claim C8 at concrete runs. \<^verbatim>\<open>enable_volume_service\<close> starts a timer only when the
  node holds none: called twice, it leaves one timer running. \<^verbatim>\<open>play_audio_file\<close>
  starts its timer in line 174 with no such test and never shuts one down. After one
  play request, with no listener counted, a volume timer runs; a listener that joins
  then makes it two timers that run at once, and so does a second play request.
\<close>

theorem playback_registers_second_timer:
  "num_peers (snd (topic_cb (Dies 0) ''a.wav'' node0)) = 0
   \<and> timers (snd (topic_cb (Dies 0) ''a.wav'' node0)) = [0]
   \<and> timers (peer_subscribe (snd (topic_cb (Dies 0) ''a.wav'' node0))) = [0, 1]
   \<and> timers (snd (topic_cb (Dies 0) ''b.wav'' (snd (topic_cb (Dies 0) ''a.wav'' node0)))) = [0, 1]
   \<and> timers (enable_volume_service (enable_volume_service node0)) = [0]"
  by (simp add: topic_cb_def play_audio_file_def play_audio_file_spawn_def ShellCmd_init_def
      ShellCmd_del_def is_done_def get_retcode_def poll_def kill_def
      Timer_def node0_def peer_subscribe_def enable_volume_service_def)

section \<open>The action callback\<close>















text \<open>
  Claim C6 at a concrete run: the goal starts at clock time 1000, the player exits
  with code 0 during the second iteration, and the clock reads 1003 after the loop.
  The feedback carries the elapsed times 1 and 2; the result that is reported as
  succeeded carries \<open>total_time = 1003\<close>, the clock time, and not the elapsed time 3.
\<close>

theorem success_reports_clock_time:
  "results (snd (as_cb (Dies 0) ''a.wav'' 1000 [(1001, []), (1002, [Exit 0 0 [] []])] 1003 node0))
     = [(SUCCEEDED, \<lparr>success = True, total_time = 1003, reason = []\<rparr>)]
   \<and> feedback (snd (as_cb (Dies 0) ''a.wav'' 1000 [(1001, []), (1002, [Exit 0 0 [] []])] 1003 node0))
     = [1, 2]"
  by (simp add: as_cb_def play_audio_file_def play_audio_file_spawn_def ShellCmd_init_def
      Timer_def node0_def as_cb_continue_def is_done_def is_succeeded_def get_retcode_def poll_def
      publish_feedback_def proc_exit_with_def as_cb_finish_def set_succeeded_def new_result_def)

text \<open>
  Claim C2 at a concrete run: a play request arrives on the topic, and, while that
  player runs, a goal arrives at the action server. \<^verbatim>\<open>as_cb\<close> calls
  \<^verbatim>\<open>play_audio_file\<close> with no \<^verbatim>\<open>kill()\<close> before it. One player is alive after the topic
  request; two are alive when \<^verbatim>\<open>play_audio_file\<close> has spawned the new one; the old
  one is killed only afterwards, by \<^verbatim>\<open>__del__\<close>, when the assignment drops its handle.
\<close>

theorem goal_after_topic_two_players:
  "live_children (procs (snd (topic_cb (Dies (- 15)) ''a.wav'' node0))) = 1
   \<and> live_children (procs (snd (play_audio_file_spawn ''b.wav''
         (snd (topic_cb (Dies (- 15)) ''a.wav'' node0))))) = 2
   \<and> live_children (procs (snd (play_audio_file (Dies (- 15)) ''b.wav''
         (snd (topic_cb (Dies (- 15)) ''a.wav'' node0))))) = 1"
  by (simp add: topic_cb_def play_audio_file_def play_audio_file_spawn_def ShellCmd_init_def
      ShellCmd_del_def is_done_def get_retcode_def poll_def kill_def
      Timer_def node0_def live_children_def)

end
